theory Spec2Isabelle
  imports Complex_Main
begin

section \<open>The ZIP football calculator: model of script.js\<close>

text \<open>
  The source holds two scripts: the calculator with one margin per period (the first
  script, with the half-time/full-time markets) and the calculator with a single margin
  (the second script). Both define \<open>factorial\<close>, \<open>computePoissonPMF\<close>,
  \<open>computeJointDistribution\<close>, \<open>deriveMarkets\<close>, \<open>applyMargin\<close> and \<open>getOdds\<close>, with the same
  statements up to layout (the differences are noted where they occur) and are modelled
  once; \<open>calculateAndRender\<close> differs and is modelled twice.

  Numbers. A JavaScript number is modelled as a real number: the arithmetic of the
  model is the arithmetic of the formulas the code writes down, without the rounding of
  IEEE doubles, and without NaN and the infinities. Loop counters and goal counts, which
  only ever hold integers, are \<open>int\<close> or \<open>nat\<close>.
\<close>

subsection \<open>Constants\<close>

definition MAX_GOALS :: int where
  "MAX_GOALS = 7"

definition STANDARD_LINES :: "real list" where
  "STANDARD_LINES = [0.5, 1.5, 2.5, 3.5, 4.5, 5.5]"

subsection \<open>factorial\<close>

definition factorialCache :: "real list" where
  "factorialCache = [1, 1, 2, 6, 24, 120, 720, 5040]"

text \<open>\<^verbatim>\<open>for (let i = factorialCache.length; i <= n; i++) res *= i;\<close>\<close>

function factorial_loop :: "int \<Rightarrow> int \<Rightarrow> real \<Rightarrow> real" where
  "factorial_loop i n res =
     (if i \<le> n then factorial_loop (i + 1) n (res * real_of_int i) else res)"
  by pat_completeness auto
termination
  by (relation "measure (\<lambda>(i, n, res). nat (n + 1 - i))") auto

declare factorial_loop.simps [simp del]

definition factorial :: "int \<Rightarrow> real" where
  "factorial n =
     (if n < 0 then 1
      else if n < int (length factorialCache) then factorialCache ! nat n
      else factorial_loop (int (length factorialCache)) n
             (factorialCache ! (length factorialCache - 1)))"

subsection \<open>computePoissonPMF\<close>

record dist =
  probs :: "real list"
  tail :: real

text \<open>
  The body of the loop over \<open>k\<close>. \<open>Math.pow(lambda, k)\<close> at a counter \<open>k \<ge> 0\<close> is the
  power \<open>lambda ^ k\<close>; both give 1 at \<open>lambda = 0\<close>, \<open>k = 0\<close>.
\<close>

definition pZip :: "real \<Rightarrow> real \<Rightarrow> real \<Rightarrow> int \<Rightarrow> real" where
  "pZip lambda pi' expLambda k =
     (let pStandard = (expLambda * lambda ^ nat k) / factorial k
      in if k = 0 then pi' + (1 - pi') * pStandard else (1 - pi') * pStandard)"

text \<open>
  \<^verbatim>\<open>for (let k = 0; k <= maxGoals; k++) { ...; probs.push(pZip); sum += pZip; }\<close>
  The loop state is the pair of \<open>probs\<close> and \<open>sum\<close>. The names \<open>pi\<close> and \<open>sum\<close> of the
  source are constants of HOL, so the model writes \<open>pi'\<close> and \<open>psum\<close>.
\<close>

function pmf_loop :: "real \<Rightarrow> real \<Rightarrow> real \<Rightarrow> int \<Rightarrow> int \<Rightarrow> real list \<times> real \<Rightarrow> real list \<times> real" where
  "pmf_loop lambda pi' expLambda maxGoals k (ps, psum) =
     (if k \<le> maxGoals
      then let p = pZip lambda pi' expLambda k
           in pmf_loop lambda pi' expLambda maxGoals (k + 1) (ps @ [p], psum + p)
      else (ps, psum))"
  by pat_completeness auto
termination
  by (relation "measure (\<lambda>(lambda, pi', expLambda, maxGoals, k, st). nat (maxGoals + 1 - k))") auto

declare pmf_loop.simps [simp del]

definition computePoissonPMF :: "real \<Rightarrow> int \<Rightarrow> real \<Rightarrow> dist" where
  "computePoissonPMF lambda maxGoals pi' =
     (let expLambda = exp (- lambda);
          (ps, psum) = pmf_loop lambda pi' expLambda maxGoals 0 ([], 0)
      in \<lparr>probs = ps, tail = 1 - psum\<rparr>)"

subsection \<open>computeJointDistribution\<close>

record joint =
  matrix :: "real list list"
  tailProb :: real

text \<open>
  An assignment \<open>xs[i] = v\<close> replaces the element at an index below the length and
  extends the array at the index equal to the length. The loops below never assign
  beyond the length (where JavaScript would leave holes), so \<open>assign\<close> has no case for it.
\<close>

definition assign :: "'a list \<Rightarrow> nat \<Rightarrow> 'a \<Rightarrow> 'a list" where
  "assign xs i v = (if i < length xs then xs[i := v] else xs @ [v])"

text \<open>
  The body of the loop over \<open>j\<close>:
  \<^verbatim>\<open>let jointP = distH.probs[i] * distA.probs[j]; matrix[i][j] = jointP; totalProb += jointP;\<close>
  Both reads are in range: \<open>computePoissonPMF\<close> returns \<open>maxGoals + 1\<close> entries
  (lemma \<open>length_probs\<close>) and the counters stay at or below \<open>maxGoals\<close>.
\<close>

definition joint_cell :: "dist \<Rightarrow> dist \<Rightarrow> int \<Rightarrow> int \<Rightarrow> real list list \<times> real \<Rightarrow> real list list \<times> real" where
  "joint_cell distH distA i j = (\<lambda>(m, totalProb).
     let jointP = probs distH ! nat i * probs distA ! nat j
     in (m[nat i := assign (m ! nat i) (nat j) jointP], totalProb + jointP))"

text \<open>The body of the loop over \<open>i\<close>: \<^verbatim>\<open>matrix[i] = [];\<close> and the loop over \<open>j\<close>.\<close>

definition joint_row :: "dist \<Rightarrow> dist \<Rightarrow> int \<Rightarrow> int \<Rightarrow> real list list \<times> real \<Rightarrow> real list list \<times> real" where
  "joint_row distH distA maxGoals i = (\<lambda>(m, totalProb).
     fold (joint_cell distH distA i) [0..maxGoals] (assign m (nat i) [], totalProb))"

text \<open>
  The second script returns \<open>distH\<close> and \<open>distA\<close> beside \<open>matrix\<close> and \<open>tailProb\<close>; nothing
  reads them, and the record keeps the two fields that both scripts return.
\<close>

definition computeJointDistribution :: "real \<Rightarrow> real \<Rightarrow> real \<Rightarrow> real \<Rightarrow> int \<Rightarrow> joint" where
  "computeJointDistribution lambdaH lambdaA piH piA maxGoals =
     (let distH = computePoissonPMF lambdaH maxGoals piH;
          distA = computePoissonPMF lambdaA maxGoals piA;
          (m, totalProb) = fold (joint_row distH distA maxGoals) [0..maxGoals] ([], 0)
      in \<lparr>matrix = m, tailProb = 1 - totalProb\<rparr>)"

subsection \<open>Reading a grid\<close>

text \<open>
  \<open>deriveMarkets\<close> and \<open>deriveHalfTimeFullTime\<close> read \<open>matrix[h][a]\<close> for all \<open>h, a < size\<close>
  without a check. Where a matrix has fewer rows or a shorter row, JavaScript reads
  \<open>undefined\<close> and goes on with NaN, or raises a TypeError; the model has no such values
  and gives \<open>None\<close> for a matrix that does not cover the grid. A matrix built by
  \<open>computeJointDistribution\<close> is square and covers its own size.
\<close>

definition covers :: "nat \<Rightarrow> real list list \<Rightarrow> bool" where
  "covers n m \<longleftrightarrow> n \<le> length m \<and> (\<forall>h \<in> {0..<n}. n \<le> length (m ! h))"



subsection \<open>deriveMarkets\<close>








subsection \<open>deriveHalfTimeFullTime (first script)\<close>

text \<open>
  The results \<^verbatim>\<open>'H'\<close>, \<^verbatim>\<open>'D'\<close>, \<^verbatim>\<open>'A'\<close>; a key \<^verbatim>\<open>`${htResult}-${ftResult}`\<close> of the
  half-time/full-time table is the pair of the two results, so that the nine keys of the
  object \<open>htft\<close> are all the values of the type and \<open>htft\<close> is a function on it.
  \<open>htftGoals\<close> is keyed by the goal line, then by the same nine keys.
\<close>

datatype result = H | D | A

type_synonym key = "result \<times> result"

record ou =
  over :: real
  under :: real

record htftData =
  htft :: "key \<Rightarrow> real"
  htftGoals :: "real \<rightharpoonup> (key \<Rightarrow> ou)"

text \<open>\<^verbatim>\<open>h > a ? 'H' : h === a ? 'D' : 'A'\<close>, written out for the half-time and the full-time score.\<close>

definition result_of :: "nat \<Rightarrow> nat \<Rightarrow> result" where
  "result_of h a = (if h > a then H else if h = a then D else A)"

text \<open>
  The two objects as created: every key of \<open>htft\<close> at 0, and for every standard line every
  key at \<^verbatim>\<open>{ over: 0, under: 0 }\<close>.
\<close>

definition htft_init :: htftData where
  "htft_init =
     \<lparr>htft = (\<lambda>key. 0),
      htftGoals = fold (\<lambda>line g. g(line \<mapsto> (\<lambda>key. \<lparr>over = 0, under = 0\<rparr>))) STANDARD_LINES Map.empty\<rparr>"

text \<open>
  \<^verbatim>\<open>if (ftTotal > line) htftGoals[line][key].over += prob; else htftGoals[line][key].under += prob;\<close>
  A line that \<open>htftGoals\<close> does not hold would be a TypeError in the source; it does not
  arise: every standard line is present from \<open>htft_init\<close> on (lemmas \<open>goals_split_init\<close>
  and \<open>goals_split_cell\<close>).
\<close>

definition goals_line :: "nat \<Rightarrow> key \<Rightarrow> real \<Rightarrow> real \<Rightarrow> (real \<rightharpoonup> (key \<Rightarrow> ou)) \<Rightarrow> (real \<rightharpoonup> (key \<Rightarrow> ou))" where
  "goals_line ftTotal key prob line g =
     (case g line of
        None \<Rightarrow> g
      | Some t \<Rightarrow>
          g(line \<mapsto> t(key :=
            (if real ftTotal > line then (t key)\<lparr>over := over (t key) + prob\<rparr>
             else (t key)\<lparr>under := under (t key) + prob\<rparr>))))"

text \<open>The body of the innermost loop, after the two reads and their \<^verbatim>\<open>continue\<close>.\<close>

definition htft_cell :: "real \<Rightarrow> real \<Rightarrow> result \<Rightarrow> nat \<Rightarrow> nat \<Rightarrow> nat \<Rightarrow> nat \<Rightarrow> htftData \<Rightarrow> htftData" where
  "htft_cell pHT p2H htResult h1_h h1_a h2_h h2_a st =
     (let ft_h = h1_h + h2_h;
          ft_a = h1_a + h2_a;
          ftTotal = ft_h + ft_a;
          ftResult = result_of ft_h ft_a;
          prob = pHT * p2H;
          key = (htResult, ftResult);
          st1 = st\<lparr>htft := (htft st)(key := htft st key + prob)\<rparr>
      in st1\<lparr>htftGoals := fold (goals_line ftTotal key prob) STANDARD_LINES (htftGoals st1)\<rparr>)"

text \<open>The loops over the second-half score \<open>(h2_h, h2_a)\<close>, with \<^verbatim>\<open>if (p2H === 0) continue;\<close>\<close>

definition htft_second :: "real list list \<Rightarrow> nat \<Rightarrow> real \<Rightarrow> result \<Rightarrow> nat \<Rightarrow> nat \<Rightarrow> htftData \<Rightarrow> htftData" where
  "htft_second matrixH2 n pHT htResult h1_h h1_a st =
     fold (\<lambda>h2_h st. fold (\<lambda>h2_a st.
         let p2H = matrixH2 ! h2_h ! h2_a
         in if p2H = 0 then st else htft_cell pHT p2H htResult h1_h h1_a h2_h h2_a st)
       [0..<n] st) [0..<n] st"

text \<open>The loops over the half-time score \<open>(h1_h, h1_a)\<close>, with \<^verbatim>\<open>if (pHT === 0) continue;\<close>\<close>

definition htft_first :: "real list list \<Rightarrow> real list list \<Rightarrow> nat \<Rightarrow> htftData \<Rightarrow> htftData" where
  "htft_first matrixH1 matrixH2 n st =
     fold (\<lambda>h1_h st. fold (\<lambda>h1_a st.
         let pHT = matrixH1 ! h1_h ! h1_a
         in if pHT = 0 then st
            else htft_second matrixH2 n pHT (result_of h1_h h1_a) h1_h h1_a st)
       [0..<n] st) [0..<n] st"

definition deriveHalfTimeFullTime :: "joint \<Rightarrow> joint \<Rightarrow> htftData option" where
  "deriveHalfTimeFullTime jointH1 jointH2 =
     (let matrixH1 = matrix jointH1;
          matrixH2 = matrix jointH2;
          size = length matrixH1
      in if covers size matrixH1 \<and> covers size matrixH2
         then Some (htft_first matrixH1 matrixH2 size htft_init)
         else None)"

text \<open>
  The same computation without the two \<^verbatim>\<open>continue\<close> statements: every pair of cells is
  visited, as the specification allows ("skippable as an optimization but must not change
  results if not skipped"). It is the reference for the comparison in claim C8.
\<close>

definition htft_second_noskip :: "real list list \<Rightarrow> nat \<Rightarrow> real \<Rightarrow> result \<Rightarrow> nat \<Rightarrow> nat \<Rightarrow> htftData \<Rightarrow> htftData" where
  "htft_second_noskip matrixH2 n pHT htResult h1_h h1_a st =
     fold (\<lambda>h2_h st. fold (\<lambda>h2_a st.
         htft_cell pHT (matrixH2 ! h2_h ! h2_a) htResult h1_h h1_a h2_h h2_a st)
       [0..<n] st) [0..<n] st"

definition htft_first_noskip :: "real list list \<Rightarrow> real list list \<Rightarrow> nat \<Rightarrow> htftData \<Rightarrow> htftData" where
  "htft_first_noskip matrixH1 matrixH2 n st =
     fold (\<lambda>h1_h st. fold (\<lambda>h1_a st.
         htft_second_noskip matrixH2 n (matrixH1 ! h1_h ! h1_a) (result_of h1_h h1_a) h1_h h1_a st)
       [0..<n] st) [0..<n] st"

definition deriveHalfTimeFullTime_noskip :: "joint \<Rightarrow> joint \<Rightarrow> htftData option" where
  "deriveHalfTimeFullTime_noskip jointH1 jointH2 =
     (let matrixH1 = matrix jointH1;
          matrixH2 = matrix jointH2;
          size = length matrixH1
      in if covers size matrixH1 \<and> covers size matrixH2
         then Some (htft_first_noskip matrixH1 matrixH2 size htft_init)
         else None)"

text \<open>The sum of the nine entries of \<open>htft\<close>.\<close>

definition htft_total :: "htftData \<Rightarrow> real" where
  "htft_total st =
     htft st (H, H) + htft st (H, D) + htft st (H, A)
     + htft st (D, H) + htft st (D, D) + htft st (D, A)
     + htft st (A, H) + htft st (A, D) + htft st (A, A)"


subsection \<open>calculateAndRender\<close>

text \<open>
  The object that \<open>getInputs\<close> returns. The margins (\<open>marginFull\<close>, \<open>marginH1\<close>, \<open>marginH2\<close> in
  the first script, \<open>marginPct\<close> in the second) extend it; \<open>calculateAndRender\<close> does not
  read them.
\<close>

record inputs =
  homeTeam :: string
  awayTeam :: string
  lambdaHomeFull :: real
  lambdaAwayFull :: real
  piHome :: real
  piAway :: real
  halfFactor :: real
  isValid :: bool
  errorMsg :: string

text \<open>
  The global \<open>appState\<close> (\<open>null\<close> is \<open>None\<close>), together with the two properties of the
  error box that \<open>calculateAndRender\<close> writes: its text and whether it is hidden.
\<close>

record 'i appState =
  jointFull :: "joint option"
  jointH1 :: "joint option"
  jointH2 :: "joint option"
  inputs :: "'i option"
  errorText :: string
  errorHidden :: bool

text \<open>
  \<open>calculateAndRender\<close> of the first script, from the result \<open>inp\<close> of \<open>getInputs()\<close> up to
  the call of \<open>renderAllMarkets\<close>, which renders the page and assigns none of the fields
  modelled here.
\<close>

definition calculateAndRender :: "'a inputs_scheme \<Rightarrow> 'a inputs_scheme appState \<Rightarrow> 'a inputs_scheme appState" where
  "calculateAndRender inp st =
     (if \<not> isValid inp then st\<lparr>errorText := errorMsg inp, errorHidden := False\<rparr>
      else
        let st1 = st\<lparr>errorHidden := True, inputs := Some inp\<rparr>;
            st2 = st1\<lparr>jointFull := Some (computeJointDistribution
                    (lambdaHomeFull inp) (lambdaAwayFull inp) (piHome inp) (piAway inp) MAX_GOALS)\<rparr>;
            factorH1 = halfFactor inp;
            st3 = st2\<lparr>jointH1 := Some (computeJointDistribution
                    (lambdaHomeFull inp * factorH1) (lambdaAwayFull inp * factorH1)
                    (piHome inp) (piAway inp) MAX_GOALS)\<rparr>;
            factorH2 = 1.0 - factorH1
        in st3\<lparr>jointH2 := Some (computeJointDistribution
                    (lambdaHomeFull inp * factorH2) (lambdaAwayFull inp * factorH2)
                    (piHome inp) (piAway inp) MAX_GOALS)\<rparr>)"

text \<open>
  \<open>calculateAndRender\<close> of the second script. Its second half is built with the same
  \<open>factor\<close> as the first; the source comments the first argument with
  \<^verbatim>\<open>// Assumed symmetric scaling based on prompt 1.4\<close>.
\<close>

definition calculateAndRender2 :: "'a inputs_scheme \<Rightarrow> 'a inputs_scheme appState \<Rightarrow> 'a inputs_scheme appState" where
  "calculateAndRender2 inp st =
     (if \<not> isValid inp then st\<lparr>errorText := errorMsg inp, errorHidden := False\<rparr>
      else
        let st1 = st\<lparr>errorHidden := True, inputs := Some inp\<rparr>;
            st2 = st1\<lparr>jointFull := Some (computeJointDistribution
                    (lambdaHomeFull inp) (lambdaAwayFull inp) (piHome inp) (piAway inp) MAX_GOALS)\<rparr>;
            factor = halfFactor inp;
            st3 = st2\<lparr>jointH1 := Some (computeJointDistribution
                    (lambdaHomeFull inp * factor) (lambdaAwayFull inp * factor)
                    (piHome inp) (piAway inp) MAX_GOALS)\<rparr>
        in st3\<lparr>jointH2 := Some (computeJointDistribution
                    (lambdaHomeFull inp * factor) (lambdaAwayFull inp * factor)
                    (piHome inp) (piAway inp) MAX_GOALS)\<rparr>)"

subsection \<open>applyMargin and getOdds\<close>

text \<open>
  \<open>probs.reduce((a, b) => a + b, 0)\<close> is a left fold from 0; \<open>probs.map\<close> builds a new
  array of the same length.
\<close>

definition applyMargin :: "real list \<Rightarrow> real \<Rightarrow> real list" where
  "applyMargin ps marginPct =
     (let marginDecimal = marginPct / 100;
          targetSum = 1 + marginDecimal;
          currentSum = foldl (\<lambda>a b. a + b) 0 ps
      in map (\<lambda>p. if currentSum = 0 then 0 else (p / currentSum) * targetSum) ps)"

definition getOdds :: "real \<Rightarrow> real" where
  "getOdds prob = (if prob \<le> 0.0001 then 0 else 1 / prob)"

subsection \<open>applyMargin on arrays in a store\<close>

text \<open>
  A JavaScript array is an object with an identity: \<open>applyMargin\<close> receives a reference,
  and whether it changes its argument is a question about the store. The store maps the
  addresses of the arrays of numbers to their contents, with the next free address; what
  else the program holds (the market sets, the joint matrices, \<open>appState\<close>) is the
  extension part \<open>more\<close> of the record. \<open>reduce\<close> reads the array; \<open>map\<close> reads it and
  allocates the array it returns; the two arrow functions passed to them assign nothing.
  A reference to no array has no \<open>reduce\<close> (a TypeError): \<open>None\<close>. The parameter \<open>probs\<close> is
  written \<open>probs'\<close>, the name being a field of \<open>dist\<close>.
\<close>

type_synonym addr = nat

record store =
  arrays :: "addr \<rightharpoonup> real list"
  nextAddr :: addr

definition array_reduce :: "(real \<Rightarrow> real \<Rightarrow> real) \<Rightarrow> real \<Rightarrow> addr \<Rightarrow> 'a store_scheme \<Rightarrow> real option" where
  "array_reduce f z a s = (case arrays s a of None \<Rightarrow> None | Some xs \<Rightarrow> Some (foldl f z xs))"

definition array_map :: "(real \<Rightarrow> real) \<Rightarrow> addr \<Rightarrow> 'a store_scheme \<Rightarrow> (addr \<times> 'a store_scheme) option" where
  "array_map f a s =
     (case arrays s a of
        None \<Rightarrow> None
      | Some xs \<Rightarrow>
          Some (nextAddr s,
                s\<lparr>arrays := (arrays s)(nextAddr s \<mapsto> map f xs), nextAddr := Suc (nextAddr s)\<rparr>))"

definition applyMargin_store :: "addr \<Rightarrow> real \<Rightarrow> 'a store_scheme \<Rightarrow> (addr \<times> 'a store_scheme) option" where
  "applyMargin_store probs' marginPct s =
     (let marginDecimal = marginPct / 100;
          targetSum = 1 + marginDecimal
      in case array_reduce (\<lambda>a b. a + b) 0 probs' s of
           None \<Rightarrow> None
         | Some currentSum \<Rightarrow>
             array_map (\<lambda>p. if currentSum = 0 then 0 else (p / currentSum) * targetSum) probs' s)"

text \<open>A store in which every array lies below the next free address.\<close>

definition store_ok :: "'a store_scheme \<Rightarrow> bool" where
  "store_ok s \<longleftrightarrow> (\<forall>a \<in> dom (arrays s). a < nextAddr s)"

section \<open>Properties\<close>

subsection \<open>factorial and computePoissonPMF\<close>

text \<open>The loop of \<open>factorial\<close>, entered at \<open>i\<close> with \<open>(i - 1)!\<close>, leaves with \<open>n!\<close>.\<close>

lemma factorial_loop_fact:
  "1 \<le> i \<Longrightarrow> i \<le> n + 1 \<Longrightarrow> res = fact (nat (i - 1)) \<Longrightarrow> factorial_loop i n res = fact (nat n)"
proof (induction i n res rule: factorial_loop.induct)
  case (1 i n res)
  show ?case
  proof (cases "i \<le> n")
    case True
    have "res * real_of_int i = fact (nat i)"
      using 1(2,4) by (simp add: fact_reduce nat_diff_distrib)
    then have "factorial_loop (i + 1) n (res * real_of_int i) = fact (nat n)"
      using 1(1)[OF True] 1(2) True by simp
    then show ?thesis using True by (simp add: factorial_loop.simps [of i])
  next
    case False
    then have "factorial_loop i n res = res"
      by (simp add: factorial_loop.simps [of i])
    moreover have "i - 1 = n" using False 1(3) by simp
    ultimately show ?thesis using 1(4) by simp
  qed
qed

lemma factorial_cache: "k < 8 \<Longrightarrow> factorialCache ! k = fact k"
proof -
  assume "k < 8"
  then consider "k = 0" | "k = 1" | "k = 2" | "k = 3" | "k = 4" | "k = 5" | "k = 6" | "k = 7"
    by linarith
  then show ?thesis
    by cases (simp_all add: factorialCache_def fact_numeral)
qed

lemma factorial_fact: "0 \<le> k \<Longrightarrow> factorial k = fact (nat k)"
proof (cases "k < 8")
  case True
  assume "0 \<le> k"
  then show ?thesis using True factorial_cache [of "nat k"]
    by (simp add: factorial_def factorialCache_def)
next
  case False
  have "factorial_loop 8 k 5040 = fact (nat k)"
    using False by (intro factorial_loop_fact) (simp_all add: fact_numeral)
  then show ?thesis using False by (simp add: factorial_def factorialCache_def)
qed

text \<open>The loop of \<open>computePoissonPMF\<close> appends one entry per counter value and adds it up.\<close>

lemma pmf_loop_closed:
  "pmf_loop l p e m k (ps, s) =
     (ps @ map (pZip l p e) [k..m], s + sum_list (map (pZip l p e) [k..m]))"
proof (induction l p e m k "(ps, s)" arbitrary: ps s rule: pmf_loop.induct)
  case (1 l p e m k ps s)
  show ?case
  proof (cases "k \<le> m")
    case True
    then have "[k..m] = k # [k + 1..m]" by (simp add: upto_rec1)
    then show ?thesis
      using 1[OF True refl] True by (simp add: Let_def pmf_loop.simps [of l p e m k])
  next
    case False
    then show ?thesis by (simp add: pmf_loop.simps [of l p e m k])
  qed
qed

lemma computePoissonPMF_closed:
  "computePoissonPMF l m p =
     \<lparr>probs = map (pZip l p (exp (- l))) [0..m],
      tail = 1 - sum_list (map (pZip l p (exp (- l))) [0..m])\<rparr>"
  by (simp add: computePoissonPMF_def pmf_loop_closed Let_def)

lemma length_probs: "length (probs (computePoissonPMF l m p)) = nat (m + 1)"
  by (simp add: computePoissonPMF_closed)

lemma nth_probs:
  "k < nat (m + 1) \<Longrightarrow> probs (computePoissonPMF l m p) ! k = pZip l p (exp (- l)) (int k)"
  by (simp add: computePoissonPMF_closed)

text \<open>
  Claim C1. \<open>computePoissonPMF lambda maxGoals pi\<close> returns \<open>maxGoals + 1\<close> entries, entry \<open>k\<close>
  being \<open>pi + (1 - pi) * e^(-lambda) * lambda^k / k!\<close> at \<open>k = 0\<close> and
  \<open>(1 - pi) * e^(-lambda) * lambda^k / k!\<close> at \<open>k > 0\<close>, with \<open>k!\<close> the factorial of
  mathematics; the tail is 1 minus the sum of the entries, so that entries and tail sum
  to 1. This holds for every \<open>lambda\<close>, \<open>pi\<close> and \<open>maxGoals\<close>, in particular for
  \<open>lambda \<ge> 0\<close>, \<open>pi\<close> in \<open>[0, 1]\<close> and \<open>maxGoals \<ge> 0\<close>.
\<close>

theorem computePoissonPMF_zip:
  "length (probs (computePoissonPMF lambda maxGoals pi')) = nat (maxGoals + 1)
   \<and> (\<forall>k < nat (maxGoals + 1).
         probs (computePoissonPMF lambda maxGoals pi') ! k =
           (if k = 0 then pi' + (1 - pi') * (exp (- lambda) * lambda ^ k / fact k)
            else (1 - pi') * (exp (- lambda) * lambda ^ k / fact k)))
   \<and> tail (computePoissonPMF lambda maxGoals pi') =
         1 - sum_list (probs (computePoissonPMF lambda maxGoals pi'))
   \<and> sum_list (probs (computePoissonPMF lambda maxGoals pi'))
         + tail (computePoissonPMF lambda maxGoals pi') = 1"
proof -
  have "probs (computePoissonPMF lambda maxGoals pi') ! k =
           (if k = 0 then pi' + (1 - pi') * (exp (- lambda) * lambda ^ k / fact k)
            else (1 - pi') * (exp (- lambda) * lambda ^ k / fact k))"
    if "k < nat (maxGoals + 1)" for k
    using that by (simp add: nth_probs pZip_def factorial_fact)
  moreover have "tail (computePoissonPMF lambda maxGoals pi') =
         1 - sum_list (probs (computePoissonPMF lambda maxGoals pi'))"
    by (simp add: computePoissonPMF_closed)
  ultimately show ?thesis by (simp add: length_probs)
qed

theorem computePoissonPMF_zip_witness:
  "length (probs (computePoissonPMF 0 2 (1 / 2))) = 3
   \<and> probs (computePoissonPMF 0 2 (1 / 2)) ! 0 = 1
   \<and> probs (computePoissonPMF 0 2 (1 / 2)) ! 1 = 0
   \<and> sum_list (probs (computePoissonPMF 0 2 (1 / 2))) + tail (computePoissonPMF 0 2 (1 / 2)) = 1"
  using computePoissonPMF_zip [of 0 2 "1 / 2"] by simp

subsection \<open>computeJointDistribution\<close>

text \<open>The loops over \<open>j\<close> and \<open>i\<close> in closed form.\<close>

lemma joint_cells_fold:
  "0 \<le> k \<Longrightarrow> nat i < length m \<Longrightarrow> length (m ! nat i) = nat k \<Longrightarrow>
   fold (joint_cell dH dA i) [k..mg] (m, t) =
     (m[nat i := m ! nat i @ map (\<lambda>j. probs dH ! nat i * probs dA ! nat j) [k..mg]],
      t + (\<Sum>j\<leftarrow>[k..mg]. probs dH ! nat i * probs dA ! nat j))"
proof (induction k mg arbitrary: m t rule: upto.induct)
  case (1 k mg)
  show ?case
  proof (cases "k \<le> mg")
    case True
    let ?v = "probs dH ! nat i * probs dA ! nat k"
    let ?m = "m[nat i := m ! nat i @ [?v]]"
    have step: "joint_cell dH dA i k (m, t) = (?m, t + ?v)"
      using 1(3,4) by (simp add: joint_cell_def assign_def Let_def)
    have "fold (joint_cell dH dA i) [k + 1..mg] (?m, t + ?v) =
            (?m[nat i := ?m ! nat i @ map (\<lambda>j. probs dH ! nat i * probs dA ! nat j) [k + 1..mg]],
             t + ?v + (\<Sum>j\<leftarrow>[k + 1..mg]. probs dH ! nat i * probs dA ! nat j))"
      using 1(2,3,4) by (intro 1(1)[OF True]) (simp_all add: nat_add_distrib)
    then show ?thesis
      using True 1(3) step by (simp add: upto_rec1 [of k mg])
  next
    case False
    then show ?thesis by simp
  qed
qed

lemma joint_row_closed:
  "0 \<le> i \<Longrightarrow> length m = nat i \<Longrightarrow>
   joint_row dH dA mg i (m, t) =
     (m @ [map (\<lambda>j. probs dH ! nat i * probs dA ! nat j) [0..mg]],
      t + (\<Sum>j\<leftarrow>[0..mg]. probs dH ! nat i * probs dA ! nat j))"
proof -
  assume i: "0 \<le> i" and m: "length m = nat i"
  have "fold (joint_cell dH dA i) [0..mg] (m @ [[]], t) =
          ((m @ [[]])[nat i := (m @ [[]]) ! nat i @ map (\<lambda>j. probs dH ! nat i * probs dA ! nat j) [0..mg]],
           t + (\<Sum>j\<leftarrow>[0..mg]. probs dH ! nat i * probs dA ! nat j))"
    using m [symmetric] by (intro joint_cells_fold) simp_all
  then show ?thesis using m [symmetric] by (simp add: joint_row_def assign_def)
qed

lemma joint_rows_fold:
  "0 \<le> k \<Longrightarrow> length m = nat k \<Longrightarrow>
   fold (joint_row dH dA mg) [k..n] (m, t) =
     (m @ map (\<lambda>i. map (\<lambda>j. probs dH ! nat i * probs dA ! nat j) [0..mg]) [k..n],
      t + (\<Sum>i\<leftarrow>[k..n]. \<Sum>j\<leftarrow>[0..mg]. probs dH ! nat i * probs dA ! nat j))"
proof (induction k n arbitrary: m t rule: upto.induct)
  case (1 k n)
  show ?case
  proof (cases "k \<le> n")
    case True
    let ?row = "map (\<lambda>j. probs dH ! nat k * probs dA ! nat j) [0..mg]"
    let ?s = "\<Sum>j\<leftarrow>[0..mg]. probs dH ! nat k * probs dA ! nat j"
    have "fold (joint_row dH dA mg) [k + 1..n] (m @ [?row], t + ?s) =
            ((m @ [?row]) @ map (\<lambda>i. map (\<lambda>j. probs dH ! nat i * probs dA ! nat j) [0..mg]) [k + 1..n],
             t + ?s + (\<Sum>i\<leftarrow>[k + 1..n]. \<Sum>j\<leftarrow>[0..mg]. probs dH ! nat i * probs dA ! nat j))"
      using 1(2,3) by (intro 1(1)[OF True]) (simp_all add: nat_add_distrib)
    then show ?thesis
      using True 1(2,3) by (simp add: upto_rec1 [of k n] joint_row_closed)
  next
    case False
    then show ?thesis by simp
  qed
qed

lemma computeJointDistribution_closed:
  "computeJointDistribution lH lA pH pA mg =
     (let dH = computePoissonPMF lH mg pH; dA = computePoissonPMF lA mg pA
      in \<lparr>matrix = map (\<lambda>i. map (\<lambda>j. probs dH ! nat i * probs dA ! nat j) [0..mg]) [0..mg],
          tailProb = 1 - (\<Sum>i\<leftarrow>[0..mg]. \<Sum>j\<leftarrow>[0..mg]. probs dH ! nat i * probs dA ! nat j)\<rparr>)"
  by (simp add: computeJointDistribution_def joint_rows_fold Let_def)






subsection \<open>Sums over folds and grids\<close>


text \<open>A fold of steps that change nothing changes nothing; a fold keeps what every step keeps.\<close>

lemma fold_id:
  assumes "\<And>x s. x \<in> set xs \<Longrightarrow> f x s = s"
  shows "fold f xs s = s"
  using assms by (induction xs arbitrary: s) simp_all




subsection \<open>deriveMarkets\<close>













subsection \<open>deriveHalfTimeFullTime\<close>

text \<open>A pair of cells of probability 0 leaves the tables as they are, so the skips are idle.\<close>

lemma goals_line_zero: "goals_line t key 0 line g = g"
  by (cases "g line") (simp_all add: goals_line_def map_upd_triv)

lemma htft_cell_zero:
  "pHT * p2H = 0 \<Longrightarrow> htft_cell pHT p2H r h1_h h1_a h2_h h2_a st = st"
  by (simp add: htft_cell_def Let_def goals_line_zero fold_id del: mult_eq_0_iff)

lemma htft_cell_skip:
  "(if p2H = 0 then st else htft_cell pHT p2H r h1_h h1_a h2_h h2_a st) =
     htft_cell pHT p2H r h1_h h1_a h2_h h2_a st"
  by (simp add: htft_cell_zero)

lemma htft_second_noskip_eq:
  "htft_second m2 n pHT r h1_h h1_a st = htft_second_noskip m2 n pHT r h1_h h1_a st"
  by (simp add: htft_second_def htft_second_noskip_def Let_def htft_cell_skip)

lemma htft_second_noskip_zero:
  "htft_second_noskip m2 n 0 r h1_h h1_a st = st"
  by (simp add: htft_second_noskip_def htft_cell_zero fold_id)

lemma htft_second_skip:
  "(if pHT = 0 then st else htft_second m2 n pHT r h1_h h1_a st) =
     htft_second_noskip m2 n pHT r h1_h h1_a st"
  by (simp add: htft_second_noskip_eq htft_second_noskip_zero)

lemma htft_first_noskip_eq:
  "htft_first m1 m2 n st = htft_first_noskip m1 m2 n st"
  by (simp add: htft_first_def htft_first_noskip_def Let_def htft_second_skip)

text \<open>
  Claim C8. \<open>deriveHalfTimeFullTime\<close>, which skips the cells equal to 0, returns the same
  \<open>htft\<close> and \<open>htftGoals\<close> as the computation that visits every pair of cells.
\<close>

theorem deriveHalfTimeFullTime_skip_irrelevant:
  "deriveHalfTimeFullTime J1 J2 = deriveHalfTimeFullTime_noskip J1 J2"
  by (simp add: deriveHalfTimeFullTime_def deriveHalfTimeFullTime_noskip_def Let_def
      htft_first_noskip_eq)

theorem deriveHalfTimeFullTime_skip_irrelevant_witness:
  "deriveHalfTimeFullTime \<lparr>matrix = [[1 / 2, 0], [0, 1 / 2]], tailProb = 0\<rparr>
       \<lparr>matrix = [[0, 1], [0, 0]], tailProb = 0\<rparr>
     = deriveHalfTimeFullTime_noskip \<lparr>matrix = [[1 / 2, 0], [0, 1 / 2]], tailProb = 0\<rparr>
       \<lparr>matrix = [[0, 1], [0, 0]], tailProb = 0\<rparr>
   \<and> deriveHalfTimeFullTime_noskip \<lparr>matrix = [[1 / 2, 0], [0, 1 / 2]], tailProb = 0\<rparr>
       \<lparr>matrix = [[0, 1], [0, 0]], tailProb = 0\<rparr> \<noteq> None"
proof -
  have "covers (Suc (Suc 0)) [[1 / 2, 0], [0, 1 / 2]]" "covers (Suc (Suc 0)) [[0, 1], [0, 0]]"
    by (auto simp: covers_def less_Suc_eq)
  then show ?thesis
    using deriveHalfTimeFullTime_skip_irrelevant
      [of "\<lparr>matrix = [[1 / 2, 0], [0, 1 / 2]], tailProb = 0\<rparr>" "\<lparr>matrix = [[0, 1], [0, 0]], tailProb = 0\<rparr>"]
    by (simp add: deriveHalfTimeFullTime_noskip_def Let_def)
qed


lemma htft_total_goals [simp]: "htft_total (st\<lparr>htftGoals := g\<rparr>) = htft_total st"
  by (simp add: htft_total_def)




















subsection \<open>applyMargin\<close>





subsection \<open>applyMargin and the store\<close>

text \<open>
  Claim C9. \<open>applyMargin\<close> does not change its input: run on the array at address \<open>a\<close> of a
  store, with any margin, it returns a new array, holding the adjusted probabilities, and
  leaves the input array, every other array of the store and the rest of the program
  state as they were.
\<close>

theorem applyMargin_store_frame:
  assumes "store_ok s" and "arrays s a = Some ps"
  shows "\<exists>r s'. applyMargin_store a marginPct s = Some (r, s')
     \<and> arrays s' a = Some ps
     \<and> (\<forall>b \<in> dom (arrays s). arrays s' b = arrays s b)
     \<and> r \<notin> dom (arrays s)
     \<and> arrays s' r = Some (applyMargin ps marginPct)
     \<and> store.more s' = store.more s
     \<and> store_ok s'"
proof -
  let ?r = "nextAddr s"
  let ?s' = "s\<lparr>arrays := (arrays s)(?r \<mapsto> applyMargin ps marginPct), nextAddr := Suc ?r\<rparr>"
  have fresh: "?r \<notin> dom (arrays s)"
    using assms(1) by (auto simp: store_ok_def)
  then have ne: "a \<noteq> ?r" using assms(2) by auto
  have run: "applyMargin_store a marginPct s = Some (?r, ?s')"
    using assms(2) by (simp add: applyMargin_store_def array_reduce_def array_map_def applyMargin_def Let_def)
  have same: "\<forall>b \<in> dom (arrays s). arrays ?s' b = arrays s b"
    using fresh by auto
  have ok: "store_ok ?s'"
    using assms(1) by (auto simp: store_ok_def less_Suc_eq)
  show ?thesis
    using run ne assms(2) same fresh ok by (intro exI [of _ ?r] exI [of _ ?s']) simp
qed

theorem applyMargin_store_frame_witness:
  "\<exists>r s'. applyMargin_store 0 10 \<lparr>arrays = [0 \<mapsto> [0.5, 0.3, 0.2]], nextAddr = 1\<rparr> = Some (r, s')
     \<and> arrays s' 0 = Some [0.5, 0.3, 0.2]
     \<and> r \<noteq> 0
     \<and> arrays s' r = Some (applyMargin [0.5, 0.3, 0.2] 10)"
proof -
  let ?s = "\<lparr>arrays = [0 \<mapsto> [0.5, 0.3, 0.2 :: real]], nextAddr = 1\<rparr>"
  have ok: "store_ok ?s" by (simp add: store_ok_def)
  have a: "arrays ?s 0 = Some [0.5, 0.3, 0.2]" by simp
  from applyMargin_store_frame [OF ok a, of 10] obtain r s' where
    "applyMargin_store 0 10 ?s = Some (r, s')" "arrays s' 0 = Some [0.5, 0.3, 0.2]"
    "r \<notin> dom (arrays ?s)" "arrays s' r = Some (applyMargin [0.5, 0.3, 0.2] 10)"
    by blast
  then show ?thesis by (intro exI [of _ r] exI [of _ s']) simp
qed

subsection \<open>calculateAndRender\<close>

text \<open>The cell \<open>[0][0]\<close> of a joint matrix without zero inflation.\<close>

lemma joint_first_cell:
  "0 \<le> mg \<Longrightarrow> matrix (computeJointDistribution lH lA 0 0 mg) ! 0 ! 0 = exp (- (lH + lA))"
  by (simp add: computeJointDistribution_closed Let_def nth_probs pZip_def factorial_def
      factorialCache_def exp_add [symmetric] del: exp_minus)

text \<open>
  Claim C5, as the two scripts have it. For a valid input the first script builds the
  first-half matrix from the rates \<open>lambdaFull * f\<close> and the second-half matrix from the
  rates \<open>lambdaFull * (1 - f)\<close>; the second script builds both half matrices from the
  rates \<open>lambdaFull * f\<close>.
\<close>

theorem calculateAndRender_halves:
  assumes "isValid inp"
  shows "jointH1 (calculateAndRender inp st) =
           Some (computeJointDistribution (lambdaHomeFull inp * halfFactor inp)
                   (lambdaAwayFull inp * halfFactor inp) (piHome inp) (piAway inp) MAX_GOALS)
     \<and> jointH2 (calculateAndRender inp st) =
           Some (computeJointDistribution (lambdaHomeFull inp * (1 - halfFactor inp))
                   (lambdaAwayFull inp * (1 - halfFactor inp)) (piHome inp) (piAway inp) MAX_GOALS)
     \<and> jointH1 (calculateAndRender2 inp st) =
           Some (computeJointDistribution (lambdaHomeFull inp * halfFactor inp)
                   (lambdaAwayFull inp * halfFactor inp) (piHome inp) (piAway inp) MAX_GOALS)
     \<and> jointH2 (calculateAndRender2 inp st) =
           Some (computeJointDistribution (lambdaHomeFull inp * halfFactor inp)
                   (lambdaAwayFull inp * halfFactor inp) (piHome inp) (piAway inp) MAX_GOALS)"
  using assms by (simp add: calculateAndRender_def calculateAndRender2_def Let_def)

theorem calculateAndRender_halves_witness:
  "jointH2 (calculateAndRender
      \<lparr>homeTeam = ''Home'', awayTeam = ''Away'', lambdaHomeFull = 1.5, lambdaAwayFull = 1.2,
       piHome = 0, piAway = 0, halfFactor = 0.45, isValid = True, errorMsg = ''''\<rparr>
      \<lparr>jointFull = None, jointH1 = None, jointH2 = None, inputs = None,
       errorText = '''', errorHidden = True\<rparr>)
    = Some (computeJointDistribution (1.5 * (1 - 0.45)) (1.2 * (1 - 0.45)) 0 0 MAX_GOALS)
   \<and> jointH2 (calculateAndRender2
      \<lparr>homeTeam = ''Home'', awayTeam = ''Away'', lambdaHomeFull = 1.5, lambdaAwayFull = 1.2,
       piHome = 0, piAway = 0, halfFactor = 0.45, isValid = True, errorMsg = ''''\<rparr>
      \<lparr>jointFull = None, jointH1 = None, jointH2 = None, inputs = None,
       errorText = '''', errorHidden = True\<rparr>)
    = Some (computeJointDistribution (1.5 * 0.45) (1.2 * 0.45) 0 0 MAX_GOALS)"
  using calculateAndRender_halves
    [of "\<lparr>homeTeam = ''Home'', awayTeam = ''Away'', lambdaHomeFull = 1.5, lambdaAwayFull = 1.2,
       piHome = 0, piAway = 0, halfFactor = 0.45, isValid = True, errorMsg = ''''\<rparr>"
        "\<lparr>jointFull = None, jointH1 = None, jointH2 = None, inputs = None,
       errorText = '''', errorHidden = True\<rparr>"]
  by simp

text \<open>
  The claim as stated, for every valid input and both scripts, fails on the second script:
  at the default input (rates 1.5 and 1.2, no zero inflation, split factor 0.45) its
  second-half matrix is not the matrix of the rates \<open>lambdaFull * (1 - f)\<close>.
\<close>

theorem calculateAndRender2_second_half_counterexample:
  "jointH2 (calculateAndRender2
      \<lparr>homeTeam = ''Home'', awayTeam = ''Away'', lambdaHomeFull = 1.5, lambdaAwayFull = 1.2,
       piHome = 0, piAway = 0, halfFactor = 0.45, isValid = True, errorMsg = ''''\<rparr>
      \<lparr>jointFull = None, jointH1 = None, jointH2 = None, inputs = None,
       errorText = '''', errorHidden = True\<rparr>)
    \<noteq> Some (computeJointDistribution (1.5 * (1 - 0.45)) (1.2 * (1 - 0.45)) 0 0 MAX_GOALS)"
proof
  assume "jointH2 (calculateAndRender2
      \<lparr>homeTeam = ''Home'', awayTeam = ''Away'', lambdaHomeFull = 1.5, lambdaAwayFull = 1.2,
       piHome = 0, piAway = 0, halfFactor = 0.45, isValid = True, errorMsg = ''''\<rparr>
      \<lparr>jointFull = None, jointH1 = None, jointH2 = None, inputs = None,
       errorText = '''', errorHidden = True\<rparr>)
    = Some (computeJointDistribution (1.5 * (1 - 0.45)) (1.2 * (1 - 0.45)) 0 0 MAX_GOALS)"
  then have "computeJointDistribution (1.5 * 0.45) (1.2 * 0.45) 0 0 MAX_GOALS
      = computeJointDistribution (1.5 * (1 - 0.45)) (1.2 * (1 - 0.45)) 0 0 MAX_GOALS"
    by (simp add: calculateAndRender2_def Let_def)
  then have "matrix (computeJointDistribution (1.5 * 0.45) (1.2 * 0.45) 0 0 MAX_GOALS) ! 0 ! 0
      = matrix (computeJointDistribution (1.5 * (1 - 0.45)) (1.2 * (1 - 0.45)) 0 0 MAX_GOALS) ! 0 ! 0"
    by (simp only:)
  then have "exp (- (1.5 * 0.45 + 1.2 * 0.45)) = exp (- (1.5 * (1 - 0.45) + 1.2 * (1 - 0.45)) :: real)"
    by (simp only: joint_first_cell MAX_GOALS_def)
  then show False by simp
qed

subsection \<open>getOdds\<close>

text \<open>
  Claim C7. For every probability \<open>p\<close>, \<open>getOdds\<close> returns \<open>1 / p\<close> if \<open>p > 0.0001\<close> and 0
  otherwise. The function is total (no input makes it fail), the threshold itself is on
  the side of the sentinel, and the sentinel 0 is returned only at or below the threshold.
\<close>

theorem getOdds_threshold:
  "getOdds p = (if p > 0.0001 then 1 / p else 0)
   \<and> getOdds 0.0001 = 0
   \<and> (getOdds p = 0 \<longleftrightarrow> p \<le> 0.0001)"
  by (auto simp: getOdds_def)

theorem getOdds_threshold_witness:
  "getOdds 0.5 = 2 \<and> getOdds 0.0001 = 0 \<and> getOdds 0.0002 = 5000 \<and> getOdds 0 = 0"
  using getOdds_threshold [of "0.5"] getOdds_threshold [of "0.0002"] getOdds_threshold [of 0]
  by simp

end
